theory Spec2Isabelle
  imports Main "HOL-Library.Sublist"
begin

section \<open>dbt-py: the shim around the dbt command line (src/dbt_py/main.py)\<close>

text \<open>
  The program is forty lines of Python on top of three things it does not own: the
  interpreter's import system (\<open>importlib\<close>, \<open>pkgutil\<close>), the process environment, and
  the dbt host (\<open>dbt.context.base.get_context_modules\<close>, \<open>dbtRunner().invoke\<close>).
  The three are parameters of the model (the record \<open>world\<close>); everything the
  program itself does is a function on an explicit process state (the record
  \<open>pstate\<close>), and every exception is a value of the type \<open>exn\<close>.
\<close>

subsection \<open>Data\<close>

text \<open>
  The exceptions that matter to the program. \<open>ModuleNotFoundError\<close> is the only
  class the \<open>except\<close> clause names; \<open>ImportError\<close> is its base class and is not
  caught by that clause. \<open>RecursionError\<close> is what the interpreter raises when the
  call stack is exhausted. \<open>SystemExit\<close> carries the exit code. \<open>OtherException\<close>
  stands for any other exception class; the string is the message.
\<close>

datatype exn =
    ModuleNotFoundError string
  | ImportError string
  | RecursionError
  | SystemExit int
  | OtherException string

text \<open>\<open>isinstance(e, ModuleNotFoundError)\<close>: what \<open>except ModuleNotFoundError\<close> tests.\<close>

fun is_ModuleNotFoundError :: "exn \<Rightarrow> bool" where
  "is_ModuleNotFoundError (ModuleNotFoundError msg) = True"
| "is_ModuleNotFoundError e = False"

text \<open>
  A module object, as far as the program looks at it: \<open>__name__\<close>, and \<open>__path__\<close>,
  which only packages have (\<open>hasattr(package, "__path__")\<close> is \<open>mod_path \<noteq> None\<close>).
\<close>

record py_module =
  mod_name :: string
  mod_path :: "string list option"

text \<open>
  The host's module registry maps a namespace name to what templates see under it:
  one of the host's own namespaces (opaque here, identified by a label), or a module
  object, which is what the shim stores.
\<close>

datatype context_value = HostNamespace string | PyModule py_module

type_synonym registry = "string \<rightharpoonup> context_value"

text \<open>The object the host invoker returns: \<open>dbtRunnerResult\<close>.\<close>

record dbtRunnerResult =
  success :: bool
  exception :: "exn option"

text \<open>
  What the attribute \<open>dbt.context.base.get_context_modules\<close> is bound to: the host's
  own function, or the shim.
\<close>

datatype hook = HostOriginal | ShimInstalled

text \<open>
  The process state the program reads and writes:
  \<^item> \<open>environ\<close>: \<open>os.environ\<close>;
  \<^item> \<open>argv\<close>: \<open>sys.argv\<close>;
  \<^item> \<open>stdout\<close>: the lines printed so far, one entry for each \<open>print\<close> call;
  \<^item> \<open>imported\<close>: the names for which \<open>importlib.import_module\<close> has returned a
    module, in call order;
  \<^item> \<open>get_context_modules\<close>: the binding of \<open>dbt.context.base.get_context_modules\<close>;
  \<^item> \<open>shim_cache\<close>: the store of \<open>functools.cache\<close> for the shim, which takes no
    argument, so the store holds at most one value;
  \<^item> \<open>invocations\<close>: each call of the host invoker, with its argument list and the
    hook bound at the time of the call.
\<close>

record pstate =
  environ :: "string \<rightharpoonup> string"
  argv :: "string list"
  stdout :: "string list"
  imported :: "string list"
  get_context_modules :: hook
  shim_cache :: "registry option"
  invocations :: "(string list \<times> hook) list"

text \<open>
  What the program is given by the interpreter and the host:
  \<^item> \<open>import_module\<close>: \<open>importlib.import_module(name)\<close>, a module object or the
    exception the import raises;
  \<^item> \<open>walk_packages\<close>: \<open>pkgutil.walk_packages(path)\<close>, as the list of
    \<open>(name, is_pkg)\<close> it yields (the loader is never read; the iteration itself is
    taken to end without an exception of its own);
  \<^item> \<open>recursion_limit\<close>: how many further nested calls of \<open>_import_submodules\<close>
    the interpreter's stack admits below the first one;
  \<^item> \<open>host_get_context_modules\<close>: the dictionary the host's own
    \<open>get_context_modules()\<close> returns (a new dictionary at each call);
  \<^item> \<open>host_invoke\<close>: \<open>dbtRunner().invoke(args)\<close>. The host reads its module
    whitelist through the hook during the run, so the invoker is given the function the
    hook is bound to.
\<close>

record world =
  import_module :: "string \<Rightarrow> exn + py_module"
  walk_packages :: "string list \<Rightarrow> (string \<times> bool) list"
  recursion_limit :: nat
  host_get_context_modules :: registry
  host_invoke ::
    "(pstate \<Rightarrow> (exn + registry) \<times> pstate) \<Rightarrow> string list \<Rightarrow> pstate
      \<Rightarrow> (exn + dbtRunnerResult) \<times> pstate"

subsection \<open>Importing\<close>

text \<open>
  \<open>importlib.import_module(name)\<close> as the program observes it: the module, and the
  name added to the record of imports; or the exception, and nothing recorded.
\<close>

definition importlib_import_module ::
  "world \<Rightarrow> string \<Rightarrow> pstate \<Rightarrow> (exn + py_module) \<times> pstate" where
  "importlib_import_module w name s =
     (case import_module w name of
        Inl e \<Rightarrow> (Inl e, s)
      | Inr m \<Rightarrow> (Inr m, s\<lparr>imported := imported s @ [name]\<rparr>))"

text \<open>
  \<open>_import_submodules(package_name, recursive=True)\<close>, lines 21 to 43.
  \<open>import_submodules\<close> is the function body up to the loop, \<open>import_loop\<close> is the
  \<open>for\<close> loop over what \<open>walk_packages\<close> yields, with the dictionary \<open>results\<close>
  as accumulator. The recursive call passes no \<open>recursive\<close> argument, so it runs with
  the default \<open>True\<close>. \<open>d\<close> is the number of nested calls the stack still admits:
  a recursive call at \<open>d = 0\<close> raises \<open>RecursionError\<close>, as the interpreter does.
  \<open>results |= sub\<close> is \<open>results ++ sub\<close> (the right operand wins).
\<close>

function
  import_submodules ::
    "world \<Rightarrow> nat \<Rightarrow> string \<Rightarrow> bool \<Rightarrow> pstate
      \<Rightarrow> (exn + (string \<rightharpoonup> py_module)) \<times> pstate"
  and import_loop ::
    "world \<Rightarrow> nat \<Rightarrow> string \<Rightarrow> bool \<Rightarrow> (string \<times> bool) list
      \<Rightarrow> (string \<rightharpoonup> py_module) \<Rightarrow> pstate
      \<Rightarrow> (exn + (string \<rightharpoonup> py_module)) \<times> pstate"
where
  "import_submodules w d package_name recursive s =
     (case importlib_import_module w package_name s of
        (Inl e, s1) \<Rightarrow> (Inl e, s1)
      | (Inr package, s1) \<Rightarrow>
          (case mod_path package of
             None \<Rightarrow> (Inr Map.empty, s1)
           | Some path \<Rightarrow>
               import_loop w d (mod_name package) recursive (walk_packages w path)
                 Map.empty s1))"
| "import_loop w d pkg recursive [] results s = (Inr results, s)"
| "import_loop w d pkg recursive ((name, is_pkg) # rest) results s =
     (let full_name = pkg @ ''.'' @ name in
      case importlib_import_module w full_name s of
        (Inl e, s1) \<Rightarrow> (Inl e, s1)
      | (Inr m, s1) \<Rightarrow>
          if recursive \<and> is_pkg then
            (case d of
               0 \<Rightarrow> (Inl RecursionError, s1)
             | Suc d' \<Rightarrow>
                 (case import_submodules w d' full_name True s1 of
                    (Inl e, s2) \<Rightarrow> (Inl e, s2)
                  | (Inr sub, s2) \<Rightarrow>
                      import_loop w d pkg recursive rest
                        (results(full_name \<mapsto> m) ++ sub) s2))
          else import_loop w d pkg recursive rest (results(full_name \<mapsto> m)) s1)"
  by pat_completeness auto
termination
  by (relation "measures
        [\<lambda>x. case x of Inl (w, d, n, r, s) \<Rightarrow> 2 * d + 1
                      | Inr (w, d, p, r, xs, res, s) \<Rightarrow> 2 * d,
         \<lambda>x. case x of Inl (w, d, n, r, s) \<Rightarrow> 0
                      | Inr (w, d, p, r, xs, res, s) \<Rightarrow> length xs]")
     auto

declare import_submodules.simps [simp del]
declare import_loop.simps [simp del]

subsection \<open>Configuration\<close>

text \<open>
  \<open>os.environ.get(key) or default\<close>: \<open>or\<close> yields its right operand when the left one
  is falsy, and both \<open>None\<close> (the variable is unset) and the empty string are falsy.
\<close>

definition environ_get_or :: "(string \<rightharpoonup> string) \<Rightarrow> string \<Rightarrow> string \<Rightarrow> string" where
  "environ_get_or env key dflt =
     (case env key of
        None \<Rightarrow> dflt
      | Some v \<Rightarrow> if v = [] then dflt else v)"

text \<open>Line 53 and line 54: the two local variables of the shim.\<close>

definition package_root :: "(string \<rightharpoonup> string) \<Rightarrow> string" where
  "package_root env = environ_get_or env ''DBT_PY_PACKAGE_ROOT'' ''custom''"

definition package_name :: "(string \<rightharpoonup> string) \<Rightarrow> string" where
  "package_name env = environ_get_or env ''DBT_PY_PACKAGE_NAME'' (package_root env)"

subsection \<open>The registrar\<close>

text \<open>The line the \<open>except\<close> branch prints: yellow, the fixed text, reset.\<close>

definition yellow :: string where
  "yellow = CHR 0x1B # ''[1;33m''"

definition reset :: string where
  "reset = CHR 0x1B # ''[0m''"

definition warning_line :: string where
  "warning_line =
     yellow @ ''Warning: dbt-py was invoked, but no custom package was found.'' @ reset"

definition print :: "string \<Rightarrow> pstate \<Rightarrow> pstate" where
  "print line s = s\<lparr>stdout := stdout s @ [line]\<rparr>"

text \<open>
  The body of the \<open>try\<close>, lines 58 and 59: import the submodules, then import the
  package again and store it in \<open>modules\<close> under \<open>package_name\<close>. The right-hand side
  of the assignment is evaluated before the store, so an exception leaves \<open>modules\<close>
  as it was.
\<close>

definition try_body ::
  "world \<Rightarrow> string \<Rightarrow> string \<Rightarrow> registry \<Rightarrow> pstate \<Rightarrow> (exn + registry) \<times> pstate" where
  "try_body w root name modules s =
     (case import_submodules w (recursion_limit w) root True s of
        (Inl e, s1) \<Rightarrow> (Inl e, s1)
      | (Inr res, s1) \<Rightarrow>
          (case importlib_import_module w root s1 of
             (Inl e, s2) \<Rightarrow> (Inl e, s2)
           | (Inr m, s2) \<Rightarrow> (Inr (modules(name \<mapsto> PyModule m)), s2)))"

text \<open>
  The undecorated function, lines 47 to 73. An exception of the \<open>try\<close> that is a
  \<open>ModuleNotFoundError\<close> is replaced by the printed line and the function returns
  \<open>modules\<close>; any other exception leaves the function.
\<close>

definition get_context_modules_shim_body ::
  "world \<Rightarrow> pstate \<Rightarrow> (exn + registry) \<times> pstate" where
  "get_context_modules_shim_body w s =
     (let root = package_root (environ s);
          name = package_name (environ s);
          modules = host_get_context_modules w
      in case try_body w root name modules s of
           (Inr modules', s1) \<Rightarrow> (Inr modules', s1)
         | (Inl e, s1) \<Rightarrow>
             if is_ModuleNotFoundError e then (Inr modules, print warning_line s1)
             else (Inl e, s1))"

text \<open>
  \<open>@functools.cache\<close> on a function without arguments: a stored value is returned
  without running the body; otherwise the body runs and its return value is stored.
  A call that raises stores nothing. \<open>cache_clear\<close> empties the store.
\<close>

definition get_context_modules_shim ::
  "world \<Rightarrow> pstate \<Rightarrow> (exn + registry) \<times> pstate" where
  "get_context_modules_shim w s =
     (case shim_cache s of
        Some r \<Rightarrow> (Inr r, s)
      | None \<Rightarrow>
          (case get_context_modules_shim_body w s of
             (Inl e, s1) \<Rightarrow> (Inl e, s1)
           | (Inr r, s1) \<Rightarrow> (Inr r, s1\<lparr>shim_cache := Some r\<rparr>)))"

definition cache_clear :: "pstate \<Rightarrow> pstate" where
  "cache_clear s = s\<lparr>shim_cache := None\<rparr>"

subsection \<open>The invocation adapter\<close>

text \<open>
  A call of \<open>dbt.context.base.get_context_modules()\<close> by the host: whatever the
  attribute is bound to at that moment.
\<close>

definition call_get_context_modules ::
  "world \<Rightarrow> pstate \<Rightarrow> (exn + registry) \<times> pstate" where
  "call_get_context_modules w s =
     (case get_context_modules s of
        HostOriginal \<Rightarrow> (Inr (host_get_context_modules w), s)
      | ShimInstalled \<Rightarrow> get_context_modules_shim w s)"

text \<open>
  \<open>dbt.cli.main.dbtRunner().invoke(args)\<close>: the host runs, and the call is recorded
  with its arguments and the hook bound when it was made.
\<close>

definition dbtRunner_invoke ::
  "world \<Rightarrow> string list \<Rightarrow> pstate \<Rightarrow> (exn + dbtRunnerResult) \<times> pstate" where
  "dbtRunner_invoke w args s =
     (case host_invoke w (call_get_context_modules w) args s of
        (r, s1) \<Rightarrow>
          (r, s1\<lparr>invocations := invocations s @ [(args, get_context_modules s)]\<rparr>))"

text \<open>
  \<open>main()\<close>, lines 76 to 90. \<open>sys.argv[1:]\<close> is \<open>drop 1\<close> (a slice never raises).
  The function has no \<open>return\<close>: it leaves by an exception in every case.
\<close>

definition main :: "world \<Rightarrow> pstate \<Rightarrow> exn \<times> pstate" where
  "main w s =
     (let s1 = s\<lparr>get_context_modules := ShimInstalled\<rparr> in
      case dbtRunner_invoke w (drop 1 (argv s1)) s1 of
        (Inl e, s2) \<Rightarrow> (e, s2)
      | (Inr result, s2) \<Rightarrow>
          if success result then (SystemExit 0, s2)
          else if exception result = None then (SystemExit 1, s2)
          else (SystemExit 2, s2))"

subsection \<open>What the walk's listing covers\<close>



subsection \<open>Concrete worlds\<close>

text \<open>The message of the interpreter's \<open>ModuleNotFoundError\<close> for a name.\<close>

definition no_module_named :: "string \<Rightarrow> string" where
  "no_module_named name = ''No module named '' @ [CHR 0x27] @ name @ [CHR 0x27]"

text \<open>
  A project with the package \<open>custom\<close>, holding the module \<open>custom.hello\<close> and the
  subpackage \<open>custom.utils\<close>, which holds the module \<open>custom.utils.text\<close>.
\<close>

definition project_import :: "string \<Rightarrow> exn + py_module" where
  "project_import name =
     (if name = ''custom'' then
        Inr \<lparr>mod_name = ''custom'', mod_path = Some [''/proj/custom'']\<rparr>
      else if name = ''custom.hello'' then
        Inr \<lparr>mod_name = ''custom.hello'', mod_path = None\<rparr>
      else if name = ''custom.utils'' then
        Inr \<lparr>mod_name = ''custom.utils'', mod_path = Some [''/proj/custom/utils'']\<rparr>
      else if name = ''custom.utils.text'' then
        Inr \<lparr>mod_name = ''custom.utils.text'', mod_path = None\<rparr>
      else Inl (ModuleNotFoundError (no_module_named name)))"

definition project_walk :: "string list \<Rightarrow> (string \<times> bool) list" where
  "project_walk path =
     (if path = [''/proj/custom''] then [(''hello'', False), (''utils'', True)]
      else if path = [''/proj/custom/utils''] then [(''text'', False)]
      else [])"

text \<open>No package at all: every import raises \<open>ModuleNotFoundError\<close>.\<close>

definition nothing_import :: "string \<Rightarrow> exn + py_module" where
  "nothing_import name = Inl (ModuleNotFoundError (no_module_named name))"

text \<open>
  The package \<open>custom\<close> is there, but its own code fails when it is imported:
  the import raises \<open>ImportError\<close>, not \<open>ModuleNotFoundError\<close>.
\<close>

definition broken_import :: "string \<Rightarrow> exn + py_module" where
  "broken_import name =
     (if name = ''custom'' then Inl (ImportError ''cannot import name helper'')
      else Inl (ModuleNotFoundError (no_module_named name)))"

text \<open>
  The package \<open>custom\<close> imports, and its submodule \<open>custom.hello\<close> raises an
  exception of its own when its code runs.
\<close>

definition failing_submodule_import :: "string \<Rightarrow> exn + py_module" where
  "failing_submodule_import name =
     (if name = ''custom.hello'' then Inl (OtherException ''boom'')
      else project_import name)"

text \<open>
  Everything is there, but the code of \<open>custom.utils.text\<close> imports a library that is
  not installed: its import raises \<open>ModuleNotFoundError\<close> for that library.
\<close>

definition missing_dependency_import :: "string \<Rightarrow> exn + py_module" where
  "missing_dependency_import name =
     (if name = ''custom.utils.text'' then
        Inl (ModuleNotFoundError (no_module_named ''numpy''))
      else project_import name)"

text \<open>The host's own registry: two of its namespaces.\<close>

definition host_registry :: registry where
  "host_registry =
     [''datetime'' \<mapsto> HostNamespace ''datetime'', ''re'' \<mapsto> HostNamespace ''re'']"

text \<open>
  A host that asks for its module whitelist once and succeeds if it gets one, and a
  host that returns a given result without asking.
\<close>

definition asking_invoke ::
  "(pstate \<Rightarrow> (exn + registry) \<times> pstate) \<Rightarrow> string list \<Rightarrow> pstate
    \<Rightarrow> (exn + dbtRunnerResult) \<times> pstate" where
  "asking_invoke hookf args s =
     (case hookf s of
        (Inl e, s1) \<Rightarrow> (Inr \<lparr>success = False, exception = Some e\<rparr>, s1)
      | (Inr r, s1) \<Rightarrow> (Inr \<lparr>success = True, exception = None\<rparr>, s1))"

definition fixed_invoke ::
  "dbtRunnerResult \<Rightarrow> (pstate \<Rightarrow> (exn + registry) \<times> pstate) \<Rightarrow> string list \<Rightarrow> pstate
    \<Rightarrow> (exn + dbtRunnerResult) \<times> pstate" where
  "fixed_invoke result hookf args s = (Inr result, s)"

definition make_world ::
  "(string \<Rightarrow> exn + py_module) \<Rightarrow>
   ((pstate \<Rightarrow> (exn + registry) \<times> pstate) \<Rightarrow> string list \<Rightarrow> pstate
      \<Rightarrow> (exn + dbtRunnerResult) \<times> pstate) \<Rightarrow> world" where
  "make_world imp invoker =
     \<lparr>import_module = imp, walk_packages = project_walk, recursion_limit = 100,
      host_get_context_modules = host_registry, host_invoke = invoker\<rparr>"

text \<open>
  A project whose package \<open>custom\<close> holds the module \<open>custom.hello\<close> and the
  subpackage \<open>custom.json\<close> with the module \<open>custom.json.extra\<close>. These four
  import; nothing else does.
\<close>

definition shadowing_import :: "string \<Rightarrow> exn + py_module" where
  "shadowing_import name =
     (if name = ''custom'' then
        Inr \<lparr>mod_name = ''custom'', mod_path = Some [''/proj/custom'']\<rparr>
      else if name = ''custom.hello'' then
        Inr \<lparr>mod_name = ''custom.hello'', mod_path = None\<rparr>
      else if name = ''custom.json'' then
        Inr \<lparr>mod_name = ''custom.json'', mod_path = Some [''/proj/custom/json'']\<rparr>
      else if name = ''custom.json.extra'' then
        Inr \<lparr>mod_name = ''custom.json.extra'', mod_path = None\<rparr>
      else Inl (ModuleNotFoundError (no_module_named name)))"

text \<open>
  What \<open>pkgutil.walk_packages\<close> yields for that project when it is called with the
  path alone, as line 37 calls it: after the entry \<open>json\<close> it imports the bare name
  \<open>json\<close>, which is the standard library's package, and goes on with that package's
  modules under the prefix \<open>json.\<close>.
\<close>

definition shadowing_walk :: "string list \<Rightarrow> (string \<times> bool) list" where
  "shadowing_walk path =
     (if path = [''/proj/custom''] then
        [(''hello'', False), (''json'', True), (''json.decoder'', False),
         (''json.encoder'', False), (''json.scanner'', False), (''json.tool'', False)]
      else if path = [''/proj/custom/json''] then [(''extra'', False)]
      else [])"

definition shadowing_world :: world where
  "shadowing_world =
     \<lparr>import_module = shadowing_import, walk_packages = shadowing_walk,
      recursion_limit = 100, host_get_context_modules = host_registry,
      host_invoke = asking_invoke\<rparr>"

text \<open>A new process: nothing printed, imported, cached or invoked yet.\<close>

definition fresh_process :: "(string \<rightharpoonup> string) \<Rightarrow> string list \<Rightarrow> pstate" where
  "fresh_process env args =
     \<lparr>environ = env, argv = args, stdout = [], imported = [],
      get_context_modules = HostOriginal, shim_cache = None, invocations = []\<rparr>"

section \<open>Properties\<close>

subsection \<open>Evaluation on concrete worlds\<close>

lemmas run_defs =
  main_def dbtRunner_invoke_def call_get_context_modules_def
  get_context_modules_shim_def get_context_modules_shim_body_def try_body_def
  package_root_def package_name_def environ_get_or_def print_def
  import_submodules.simps import_loop.simps importlib_import_module_def cache_clear_def
  Let_def

lemmas world_defs =
  make_world_def fresh_process_def asking_invoke_def fixed_invoke_def
  project_import_def project_walk_def nothing_import_def broken_import_def
  failing_submodule_import_def missing_dependency_import_def
  shadowing_import_def shadowing_walk_def shadowing_world_def

text \<open>
  The registrar's first run in a new process of the project world: the record of imports
  shows the package first (line 31), each listed entry (line 39), the subpackage once
  more at the start of its own call (line 31 again), and the package last (line 59).
\<close>

lemma project_shim_run:
  "get_context_modules_shim (make_world project_import asking_invoke)
     (fresh_process Map.empty []) =
   (Inr (host_registry
           (''custom'' \<mapsto>
              PyModule \<lparr>mod_name = ''custom'', mod_path = Some [''/proj/custom'']\<rparr>)),
    \<lparr>environ = Map.empty, argv = [], stdout = [],
     imported = [''custom'', ''custom.hello'', ''custom.utils'', ''custom.utils'',
                 ''custom.utils.text'', ''custom''],
     get_context_modules = HostOriginal,
     shim_cache =
       Some (host_registry
               (''custom'' \<mapsto>
                  PyModule \<lparr>mod_name = ''custom'', mod_path = Some [''/proj/custom'']\<rparr>)),
     invocations = []\<rparr>)"
  by (simp add: run_defs world_defs)

lemma fixed_invoke_run:
  "dbtRunner_invoke (make_world imp (fixed_invoke result)) args s =
     (Inr result, s\<lparr>invocations := invocations s @ [(args, get_context_modules s)]\<rparr>)"
  by (simp add: dbtRunner_invoke_def make_world_def fixed_invoke_def)

subsection \<open>The import walk\<close>

lemma import_submodules_root_fails:
  "import_module w p = Inl e \<Longrightarrow> import_submodules w d p r s = (Inl e, s)"
  by (simp add: import_submodules.simps importlib_import_module_def)




text \<open>
  An exception that leaves the walk is one that an import raised, or the
  interpreter's \<open>RecursionError\<close>.
\<close>

lemma walk_exception_origin:
  "(import_submodules w d p r s = (Inl e, s') \<longrightarrow>
      e = RecursionError \<or> (\<exists>n. import_module w n = Inl e))"
  "(import_loop w d pkg r items results s = (Inl e, s') \<longrightarrow>
      e = RecursionError \<or> (\<exists>n. import_module w n = Inl e))"
proof (induction w d p r s and w d pkg r items results s arbitrary: s' and s'
    rule: import_submodules_import_loop.induct)
  case (1 w d pname recursive s)
  show ?case
  proof (cases "import_module w pname")
    case (Inl e')
    then show ?thesis
      by (auto simp: import_submodules.simps importlib_import_module_def)
  next
    case (Inr m)
    then have call:
      "importlib_import_module w pname s = (Inr m, s\<lparr>imported := imported s @ [pname]\<rparr>)"
      by (simp add: importlib_import_module_def)
    show ?thesis
    proof (cases "mod_path m")
      case None
      with call show ?thesis
        by (simp add: import_submodules.simps)
    next
      case (Some path)
      from "1.IH" [OF call [symmetric] refl Some] call Some show ?thesis
        by (simp add: import_submodules.simps)
    qed
  qed
next
  case (2 w d pkg recursive results s)
  show ?case by (simp add: import_loop.simps)
next
  case (3 w d pkg recursive name is_pkg rest results s)
  let ?full = "pkg @ ''.'' @ name"
  let ?s1 = "s\<lparr>imported := imported s @ [?full]\<rparr>"
  show ?case
  proof (cases "import_module w ?full")
    case (Inl e')
    then show ?thesis
      by (auto simp: import_loop.simps importlib_import_module_def Let_def)
  next
    case (Inr m)
    then have call: "importlib_import_module w ?full s = (Inr m, ?s1)"
      by (simp add: importlib_import_module_def)
    show ?thesis
    proof (cases "recursive \<and> is_pkg")
      case False
      with call have step:
        "import_loop w d pkg recursive ((name, is_pkg) # rest) results s =
         import_loop w d pkg recursive rest (results(?full \<mapsto> m)) ?s1"
        by (auto simp: import_loop.simps Let_def)
      show ?thesis
        unfolding step by (rule "3.IH"(3) [OF refl call [symmetric] refl False])
    next
      case True
      show ?thesis
      proof (cases d)
        case 0
        with True call show ?thesis
          by (auto simp: import_loop.simps Let_def)
      next
        case (Suc d')
        show ?thesis
        proof (cases "import_submodules w d' ?full True ?s1")
          case (Pair outcome s2)
          show ?thesis
          proof (cases outcome)
            case (Inl e')
            with Pair True call Suc have step:
              "import_loop w d pkg recursive ((name, is_pkg) # rest) results s = (Inl e', s2)"
              by (auto simp: import_loop.simps Let_def)
            from "3.IH"(1) [OF refl call [symmetric] refl True Suc, of s2] Pair Inl
            show ?thesis
              unfolding step by blast
          next
            case (Inr sub)
            with Pair True call Suc have step:
              "import_loop w d pkg recursive ((name, is_pkg) # rest) results s =
               import_loop w d pkg recursive rest (results(?full \<mapsto> m) ++ sub) s2"
              by (auto simp: import_loop.simps Let_def)
            from Pair Inr have rec: "(Inr sub, s2) = import_submodules w d' ?full True ?s1"
              by simp
            show ?thesis
              unfolding step
              by (rule "3.IH"(2) [OF refl call [symmetric] refl True Suc rec refl])
          qed
        qed
      qed
    qed
  qed
qed

lemma try_body_exception_origin:
  assumes "try_body w root name modules s = (Inl e, s1)"
  shows "e = RecursionError \<or> (\<exists>n. import_module w n = Inl e)"
proof (cases "import_submodules w (recursion_limit w) root True s")
  case (Pair outcome s')
  show ?thesis
  proof (cases outcome)
    case (Inl e')
    with Pair assms have "import_submodules w (recursion_limit w) root True s = (Inl e, s')"
      by (simp add: try_body_def)
    with walk_exception_origin(1) show ?thesis
      by blast
  next
    case (Inr res)
    with Pair assms have "import_module w root = Inl e"
      by (auto simp: try_body_def importlib_import_module_def split: sum.splits)
    then show ?thesis
      by blast
  qed
qed

subsection \<open>The memoizing wrapper\<close>

lemma shim_returns_cached:
  "get_context_modules_shim w s = (Inr r, s1) \<Longrightarrow> shim_cache s1 = Some r"
  by (auto simp: get_context_modules_shim_def split: option.splits sum.splits prod.splits)

lemma shim_cache_hit:
  "shim_cache s = Some r \<Longrightarrow> get_context_modules_shim w s = (Inr r, s)"
  by (simp add: get_context_modules_shim_def)

subsection \<open>Exit codes\<close>

text \<open>
  Claim C1. Whatever result the host invoker returns, \<open>main\<close> leaves with
  \<open>SystemExit\<close>, and the code is 0 when \<open>success\<close> is true (whatever \<open>exception\<close>
  holds), 1 when \<open>success\<close> is false and \<open>exception\<close> is \<open>None\<close>, and 2 when
  \<open>success\<close> is false and an exception is present. The three cases cover every
  result.
\<close>

theorem main_exit_code:
  assumes "dbtRunner_invoke w (drop 1 (argv s)) (s\<lparr>get_context_modules := ShimInstalled\<rparr>)
             = (Inr result, s')"
  shows "main w s =
           (SystemExit (if success result then 0
                        else if exception result = None then 1 else 2), s')"
  using assms by (simp add: main_def)

theorem main_exit_code_witness:
  "fst (main (make_world nothing_import (fixed_invoke \<lparr>success = True, exception = None\<rparr>))
          (fresh_process Map.empty [''dbt'', ''run''])) = SystemExit 0 \<and>
   fst (main (make_world nothing_import
                (fixed_invoke \<lparr>success = True, exception = Some (OtherException ''odd'')\<rparr>))
          (fresh_process Map.empty [''dbt'', ''run''])) = SystemExit 0 \<and>
   fst (main (make_world nothing_import (fixed_invoke \<lparr>success = False, exception = None\<rparr>))
          (fresh_process Map.empty [''dbt'', ''test''])) = SystemExit 1 \<and>
   fst (main (make_world nothing_import
                (fixed_invoke \<lparr>success = False,
                                exception = Some (OtherException ''something bad'')\<rparr>))
          (fresh_process Map.empty [''dbt'', ''compile''])) = SystemExit 2"
  using main_exit_code [OF fixed_invoke_run] by simp

subsection \<open>A package that is not there\<close>

text \<open>
  Claim C2, as the code has it. When the import of the configured package reference
  raises \<open>ModuleNotFoundError\<close>, a call that runs the registrar returns normally, and
  what it returns, and stores for later calls, is the host's registry as the host gave
  it: nothing is written under the exposed name or anywhere else.
\<close>

theorem missing_package_abandoned:
  assumes "shim_cache s = None"
    and "import_module w (package_root (environ s)) = Inl (ModuleNotFoundError msg)"
  shows "fst (get_context_modules_shim w s) = Inr (host_get_context_modules w) \<and>
         shim_cache (snd (get_context_modules_shim w s)) = Some (host_get_context_modules w)"
  using assms
  by (simp add: get_context_modules_shim_def get_context_modules_shim_body_def try_body_def
      import_submodules_root_fails print_def)

theorem missing_package_abandoned_witness:
  "fst (get_context_modules_shim (make_world nothing_import asking_invoke)
          (fresh_process [''DBT_PY_PACKAGE_ROOT'' \<mapsto> ''my_pkg''] []))
     = Inr host_registry \<and>
   host_registry ''my_pkg'' = None"
proof -
  let ?W = "make_world nothing_import asking_invoke"
  let ?S = "fresh_process [''DBT_PY_PACKAGE_ROOT'' \<mapsto> ''my_pkg''] []"
  have cache: "shim_cache ?S = None"
    by (simp add: fresh_process_def)
  have missing:
    "import_module ?W (package_root (environ ?S))
       = Inl (ModuleNotFoundError (no_module_named ''my_pkg''))"
    by (simp add: make_world_def fresh_process_def nothing_import_def package_root_def
        environ_get_or_def)
  have "host_registry ''my_pkg'' = None"
    by (simp add: host_registry_def)
  with missing_package_abandoned [OF cache missing] show ?thesis
    by (simp add: make_world_def)
qed

text \<open>
  Claim C2 as it is written speaks of every package reference that cannot be imported.
  A package whose import raises \<open>ImportError\<close> cannot be imported either, and there
  the registrar does not return: the exception leaves it.
\<close>

theorem import_error_leaves_registrar_counterexample:
  "import_module (make_world broken_import asking_invoke)
     (package_root (environ (fresh_process Map.empty [])))
     = Inl (ImportError ''cannot import name helper'') \<and>
   get_context_modules_shim (make_world broken_import asking_invoke)
     (fresh_process Map.empty [])
     = (Inl (ImportError ''cannot import name helper''), fresh_process Map.empty [])"
  by (simp add: run_defs world_defs)

subsection \<open>Memoization\<close>

text \<open>
  Claim C3. Once the registrar has returned a registry, the next call returns the same
  registry and leaves the process state as it is (nothing is imported or printed
  again); and this stays so when the environment has been changed in between, whatever
  the new values are and whatever the import system would now find, as long as the
  store has not been cleared.
\<close>

theorem shim_memoized:
  assumes "get_context_modules_shim w s = (Inr r, s1)"
  shows "get_context_modules_shim w s1 = (Inr r, s1) \<and>
         get_context_modules_shim w' (s1\<lparr>environ := env'\<rparr>) = (Inr r, s1\<lparr>environ := env'\<rparr>)"
  using shim_returns_cached [OF assms] by (simp add: shim_cache_hit)

text \<open>
  In the project world: after a first call, setting \<open>DBT_PY_PACKAGE_NAME\<close> to
  \<open>renamed\<close> changes nothing in what the registrar returns; after \<open>cache_clear\<close> the
  same call stores the package under the new name.
\<close>

theorem shim_memoized_witness:
  "fst (get_context_modules_shim (make_world project_import asking_invoke)
          ((snd (get_context_modules_shim (make_world project_import asking_invoke)
                   (fresh_process Map.empty [])))
             \<lparr>environ := [''DBT_PY_PACKAGE_NAME'' \<mapsto> ''renamed'']\<rparr>))
     = Inr (host_registry
             (''custom'' \<mapsto>
                PyModule \<lparr>mod_name = ''custom'', mod_path = Some [''/proj/custom'']\<rparr>)) \<and>
   fst (get_context_modules_shim (make_world project_import asking_invoke)
          (cache_clear
            ((snd (get_context_modules_shim (make_world project_import asking_invoke)
                     (fresh_process Map.empty [])))
               \<lparr>environ := [''DBT_PY_PACKAGE_NAME'' \<mapsto> ''renamed'']\<rparr>)))
     = Inr (host_registry
             (''renamed'' \<mapsto>
                PyModule \<lparr>mod_name = ''custom'', mod_path = Some [''/proj/custom'']\<rparr>))"
proof -
  let ?W = "make_world project_import asking_invoke"
  let ?E = "[''DBT_PY_PACKAGE_NAME'' \<mapsto> ''renamed'']"
  let ?R = "host_registry
              (''custom'' \<mapsto>
                 PyModule \<lparr>mod_name = ''custom'', mod_path = Some [''/proj/custom'']\<rparr>)"
  obtain s1 where first: "get_context_modules_shim ?W (fresh_process Map.empty []) = (Inr ?R, s1)"
    using project_shim_run by blast
  have cached: "get_context_modules_shim ?W (s1\<lparr>environ := ?E\<rparr>) = (Inr ?R, s1\<lparr>environ := ?E\<rparr>)"
    using shim_memoized [OF first, of ?W ?E] by simp
  have cleared:
    "fst (get_context_modules_shim ?W (cache_clear (s1\<lparr>environ := ?E\<rparr>)))
       = Inr (host_registry
               (''renamed'' \<mapsto>
                  PyModule \<lparr>mod_name = ''custom'', mod_path = Some [''/proj/custom'']\<rparr>))"
    using first unfolding project_shim_run by (auto simp: run_defs world_defs)
  from cached cleared show ?thesis
    by (simp add: first)
qed

subsection \<open>The host's entries\<close>

text \<open>
  Claim C4. In the registry returned by a run of the registrar, every key other than
  the configured exposed name holds exactly what the host's registry holds there: no
  host entry is removed or replaced, and nothing is added, except under the exposed
  name.
\<close>

theorem shim_frame:
  assumes "shim_cache s = None"
    and "get_context_modules_shim w s = (Inr r, s')"
    and "k \<noteq> package_name (environ s)"
  shows "r k = host_get_context_modules w k"
  using assms
  by (auto simp: get_context_modules_shim_def get_context_modules_shim_body_def try_body_def
      Let_def split: sum.splits prod.splits if_splits)

theorem shim_frame_witness:
  "\<exists>r s'. get_context_modules_shim (make_world project_import asking_invoke)
             (fresh_process Map.empty []) = (Inr r, s') \<and>
          r ''custom'' =
            Some (PyModule \<lparr>mod_name = ''custom'', mod_path = Some [''/proj/custom'']\<rparr>) \<and>
          r ''datetime'' = Some (HostNamespace ''datetime'')"
proof -
  let ?W = "make_world project_import asking_invoke"
  let ?S = "fresh_process Map.empty []"
  have cache: "shim_cache ?S = None"
    by (simp add: fresh_process_def)
  have key: "''datetime'' \<noteq> package_name (environ ?S)"
    by (simp add: fresh_process_def package_name_def package_root_def environ_get_or_def)
  have "host_get_context_modules ?W ''datetime'' = Some (HostNamespace ''datetime'')"
    by (simp add: make_world_def host_registry_def)
  with shim_frame [of ?S ?W _ _ "''datetime''", OF cache project_shim_run key]
  have "(host_registry
          (''custom'' \<mapsto>
             PyModule \<lparr>mod_name = ''custom'', mod_path = Some [''/proj/custom'']\<rparr>))
          ''datetime'' = Some (HostNamespace ''datetime'')"
    by simp
  with project_shim_run show ?thesis
    by simp
qed

subsection \<open>The printed warning\<close>

text \<open>
  Claim C5 asks for a warning that carries the package name and the text of the import
  error. The line the code prints is fixed. With both variables set to the empty
  string and no package \<open>custom\<close>, the registrar prints that line and nothing else;
  the line holds neither the text of the import error nor the tag \<open>DbtPyWarning\<close>
  that the integration test looks for. With \<open>DBT_PY_PACKAGE_ROOT\<close> set to
  \<open>my_pkg\<close> the same line is printed, and it does not hold the package name.
\<close>

theorem warning_line_omits_package_and_error:
  "get_context_modules_shim (make_world nothing_import asking_invoke)
     (fresh_process [''DBT_PY_PACKAGE_ROOT'' \<mapsto> '''', ''DBT_PY_PACKAGE_NAME'' \<mapsto> ''''] [])
     = (Inr host_registry,
        (fresh_process [''DBT_PY_PACKAGE_ROOT'' \<mapsto> '''', ''DBT_PY_PACKAGE_NAME'' \<mapsto> ''''] [])
          \<lparr>stdout := [warning_line], shim_cache := Some host_registry\<rparr>) \<and>
   \<not> sublist (no_module_named ''custom'') warning_line \<and>
   \<not> sublist ''DbtPyWarning'' warning_line \<and>
   stdout (snd (get_context_modules_shim (make_world nothing_import asking_invoke)
                  (fresh_process [''DBT_PY_PACKAGE_ROOT'' \<mapsto> ''my_pkg''] [])))
     = [warning_line] \<and>
   \<not> sublist ''my_pkg'' warning_line"
proof -
  have "\<not> sublist (no_module_named ''custom'') warning_line"
    by (simp add: no_module_named_def warning_line_def yellow_def reset_def
        sublist_Cons_right prefix_Cons)
  moreover have "\<not> sublist ''DbtPyWarning'' warning_line"
    by (simp add: warning_line_def yellow_def reset_def sublist_Cons_right prefix_Cons)
  moreover have "\<not> sublist ''my_pkg'' warning_line"
    by (simp add: warning_line_def yellow_def reset_def sublist_Cons_right prefix_Cons)
  ultimately show ?thesis
    by (simp add: run_defs world_defs)
qed

subsection \<open>Importing what is listed, then registering\<close>




subsection \<open>Configuration\<close>

text \<open>
  Claim C7. The two settings are read from the environment: a value that is set and
  not empty is the one used, for the package reference under \<open>DBT_PY_PACKAGE_ROOT\<close>
  and for the exposed name under \<open>DBT_PY_PACKAGE_NAME\<close>. When
  \<open>DBT_PY_PACKAGE_ROOT\<close> is unset the package reference is the literal \<open>custom\<close>,
  and when \<open>DBT_PY_PACKAGE_NAME\<close> is unset the exposed name is the resolved package
  reference.
\<close>

theorem config_defaults:
  "(env ''DBT_PY_PACKAGE_ROOT'' = None \<longrightarrow> package_root env = ''custom'') \<and>
   (env ''DBT_PY_PACKAGE_NAME'' = None \<longrightarrow> package_name env = package_root env) \<and>
   (env ''DBT_PY_PACKAGE_ROOT'' = Some v \<and> v \<noteq> '''' \<longrightarrow> package_root env = v) \<and>
   (env ''DBT_PY_PACKAGE_NAME'' = Some v' \<and> v' \<noteq> '''' \<longrightarrow> package_name env = v')"
  by (simp add: package_root_def package_name_def environ_get_or_def)

theorem config_defaults_witness:
  "package_root Map.empty = ''custom'' \<and> package_name Map.empty = ''custom'' \<and>
   package_name [''DBT_PY_PACKAGE_ROOT'' \<mapsto> ''pkg.sub''] = ''pkg.sub'' \<and>
   package_root [''DBT_PY_PACKAGE_ROOT'' \<mapsto> ''tests.integration.jaffle-shop.dbt_py_test'',
                 ''DBT_PY_PACKAGE_NAME'' \<mapsto> ''custom_py'']
     = ''tests.integration.jaffle-shop.dbt_py_test'' \<and>
   package_name [''DBT_PY_PACKAGE_ROOT'' \<mapsto> ''tests.integration.jaffle-shop.dbt_py_test'',
                 ''DBT_PY_PACKAGE_NAME'' \<mapsto> ''custom_py'']
     = ''custom_py''"
  using config_defaults [of Map.empty]
    config_defaults [of "[''DBT_PY_PACKAGE_ROOT'' \<mapsto> ''pkg.sub'']" "''pkg.sub''"]
    config_defaults
      [of "[''DBT_PY_PACKAGE_ROOT'' \<mapsto> ''tests.integration.jaffle-shop.dbt_py_test'',
            ''DBT_PY_PACKAGE_NAME'' \<mapsto> ''custom_py'']"
          "''tests.integration.jaffle-shop.dbt_py_test''" "''custom_py''"]
  by simp

text \<open>
  Claim C9. A variable set to the empty string counts as unset: the resolved value is
  the one obtained with the variable removed from the environment, so an empty
  \<open>DBT_PY_PACKAGE_ROOT\<close> gives \<open>custom\<close> and an empty \<open>DBT_PY_PACKAGE_NAME\<close> gives
  the resolved package reference.
\<close>

theorem config_empty_is_unset:
  "(env ''DBT_PY_PACKAGE_ROOT'' = Some '''' \<longrightarrow>
      package_root env = package_root (env(''DBT_PY_PACKAGE_ROOT'' := None)) \<and>
      package_root env = ''custom'') \<and>
   (env ''DBT_PY_PACKAGE_NAME'' = Some '''' \<longrightarrow>
      package_name env = package_name (env(''DBT_PY_PACKAGE_NAME'' := None)) \<and>
      package_name env = package_root env)"
  by (simp add: package_root_def package_name_def environ_get_or_def)

theorem config_empty_is_unset_witness:
  "package_root [''DBT_PY_PACKAGE_ROOT'' \<mapsto> '''', ''DBT_PY_PACKAGE_NAME'' \<mapsto> '''']
     = ''custom'' \<and>
   package_name [''DBT_PY_PACKAGE_ROOT'' \<mapsto> '''', ''DBT_PY_PACKAGE_NAME'' \<mapsto> '''']
     = ''custom'' \<and>
   package_name [''DBT_PY_PACKAGE_ROOT'' \<mapsto> ''pkg'', ''DBT_PY_PACKAGE_NAME'' \<mapsto> '''']
     = ''pkg''"
  using
    config_empty_is_unset
      [of "[''DBT_PY_PACKAGE_ROOT'' \<mapsto> '''', ''DBT_PY_PACKAGE_NAME'' \<mapsto> '''']"]
    config_empty_is_unset
      [of "[''DBT_PY_PACKAGE_ROOT'' \<mapsto> ''pkg'', ''DBT_PY_PACKAGE_NAME'' \<mapsto> '''']"]
  by (simp add: package_root_def package_name_def environ_get_or_def)

subsection \<open>Order of events in main\<close>

text \<open>
  Claim C8. A run of \<open>main\<close> adds exactly one call to the record of calls of the host
  invoker: its arguments are \<open>sys.argv\<close> without the program name, and the hook bound
  when the call is made is the shim, so that the host's request for its module
  whitelist during that call is a call of the registrar. The exception \<open>main\<close> leaves
  with is computed from what that call gave back.
\<close>

theorem main_installs_then_invokes_once:
  "invocations (snd (main w s)) = invocations s @ [(drop 1 (argv s), ShimInstalled)] \<and>
   call_get_context_modules w (s\<lparr>get_context_modules := ShimInstalled\<rparr>)
     = get_context_modules_shim w (s\<lparr>get_context_modules := ShimInstalled\<rparr>) \<and>
   fst (main w s) =
     (case fst (host_invoke w (call_get_context_modules w) (drop 1 (argv s))
                  (s\<lparr>get_context_modules := ShimInstalled\<rparr>)) of
        Inl e \<Rightarrow> e
      | Inr result \<Rightarrow>
          SystemExit (if success result then 0
                      else if exception result = None then 1 else 2))"
  by (auto simp: main_def dbtRunner_invoke_def call_get_context_modules_def
      split: prod.splits sum.splits)

theorem main_installs_then_invokes_once_witness:
  "invocations (snd (main (make_world project_import asking_invoke)
                       (fresh_process Map.empty [''dbt'', ''compile'', ''--debug''])))
     = [([''compile'', ''--debug''], ShimInstalled)] \<and>
   main (make_world project_import asking_invoke)
     (fresh_process Map.empty [''dbt'', ''compile'', ''--debug''])
     = (SystemExit 0,
        \<lparr>environ = Map.empty, argv = [''dbt'', ''compile'', ''--debug''], stdout = [],
         imported = [''custom'', ''custom.hello'', ''custom.utils'', ''custom.utils'',
                     ''custom.utils.text'', ''custom''],
         get_context_modules = ShimInstalled,
         shim_cache =
           Some (host_registry
                   (''custom'' \<mapsto>
                      PyModule \<lparr>mod_name = ''custom'',
                                mod_path = Some [''/proj/custom'']\<rparr>)),
         invocations = [([''compile'', ''--debug''], ShimInstalled)]\<rparr>)"
proof -
  let ?W = "make_world project_import asking_invoke"
  let ?S = "fresh_process Map.empty [''dbt'', ''compile'', ''--debug'']"
  have "invocations (snd (main ?W ?S)) = invocations ?S @ [(drop 1 (argv ?S), ShimInstalled)]"
    using main_installs_then_invokes_once [of ?W ?S] by blast
  moreover have "main ?W ?S
     = (SystemExit 0,
        \<lparr>environ = Map.empty, argv = [''dbt'', ''compile'', ''--debug''], stdout = [],
         imported = [''custom'', ''custom.hello'', ''custom.utils'', ''custom.utils'',
                     ''custom.utils.text'', ''custom''],
         get_context_modules = ShimInstalled,
         shim_cache =
           Some (host_registry
                   (''custom'' \<mapsto>
                      PyModule \<lparr>mod_name = ''custom'',
                                mod_path = Some [''/proj/custom'']\<rparr>)),
         invocations = [([''compile'', ''--debug''], ShimInstalled)]\<rparr>)"
    by (simp add: run_defs world_defs)
  ultimately show ?thesis
    by (simp add: fresh_process_def)
qed

subsection \<open>Which exceptions are caught\<close>

text \<open>
  Claim C10. An exception raised inside the \<open>try\<close> is one raised by the import of
  the package or of one of its submodules (or the interpreter's \<open>RecursionError\<close>).
  If it is a \<open>ModuleNotFoundError\<close> it is caught: the registrar prints the warning and
  returns the host's registry. Any other exception leaves the registrar as it was
  raised, with nothing printed and nothing stored.
\<close>

theorem only_module_not_found_is_caught:
  assumes "shim_cache s = None"
    and "try_body w (package_root (environ s)) (package_name (environ s))
           (host_get_context_modules w) s = (Inl e, s1)"
  shows "(e = RecursionError \<or> (\<exists>n. import_module w n = Inl e)) \<and>
         (is_ModuleNotFoundError e \<longrightarrow>
            get_context_modules_shim w s =
              (Inr (host_get_context_modules w),
               s1\<lparr>stdout := stdout s1 @ [warning_line],
                  shim_cache := Some (host_get_context_modules w)\<rparr>)) \<and>
         (\<not> is_ModuleNotFoundError e \<longrightarrow> get_context_modules_shim w s = (Inl e, s1))"
  using assms try_body_exception_origin [OF assms(2)]
  by (simp add: get_context_modules_shim_def get_context_modules_shim_body_def print_def)

text \<open>
  The submodule \<open>custom.hello\<close> raising an exception of its own: it leaves the
  registrar. No package at all: the warning, and the host's registry.
\<close>

theorem only_module_not_found_is_caught_witness:
  "get_context_modules_shim (make_world failing_submodule_import asking_invoke)
     (fresh_process Map.empty [])
     = (Inl (OtherException ''boom''),
        (fresh_process Map.empty [])\<lparr>imported := [''custom'']\<rparr>) \<and>
   get_context_modules_shim (make_world nothing_import asking_invoke)
     (fresh_process Map.empty [])
     = (Inr host_registry,
        (fresh_process Map.empty [])
          \<lparr>stdout := [warning_line], shim_cache := Some host_registry\<rparr>)"
proof -
  let ?S = "fresh_process Map.empty []"
  let ?F = "make_world failing_submodule_import asking_invoke"
  let ?N = "make_world nothing_import asking_invoke"
  have cache: "shim_cache ?S = None"
    by (simp add: fresh_process_def)
  have boom:
    "try_body ?F (package_root (environ ?S)) (package_name (environ ?S))
       (host_get_context_modules ?F) ?S
     = (Inl (OtherException ''boom''), ?S\<lparr>imported := [''custom'']\<rparr>)"
    by (simp add: run_defs world_defs)
  have missing:
    "try_body ?N (package_root (environ ?S)) (package_name (environ ?S))
       (host_get_context_modules ?N) ?S
     = (Inl (ModuleNotFoundError (no_module_named ''custom'')), ?S)"
    by (simp add: run_defs world_defs)
  from only_module_not_found_is_caught [OF cache boom]
    only_module_not_found_is_caught [OF cache missing]
  show ?thesis
    by (simp add: make_world_def fresh_process_def)
qed

end
